theory Spec2Isabelle
  imports Main
begin

section \<open>Data model (src/types.ts and the interfaces of the API client)\<close>

text \<open>
  \<^verbatim>\<open>JobStatus = "pending" | "processing" | "completed" | "failed" | "cancelled"\<close>.
  The TypeScript union of string literals is a datatype; the job record carries the
  fields of \<^verbatim>\<open>KreaJob\<close> that the client and the tool handlers read. The optional
  \<^verbatim>\<open>progress\<close> (a floating-point fraction) and the free-form \<^verbatim>\<open>metadata\<close> and
  \<^verbatim>\<open>assets\<close> of the result are display data only and are left out.
\<close>

datatype JobStatus = pending | processing | completed | failed | cancelled

record KreaJobResult =
  url :: "string option"
  urls :: "string list option"

record KreaJob =
  id' :: string
  status :: JobStatus
  type :: string
  createdAt :: string
  updatedAt :: string
  completedAt :: "string option"
  result :: "KreaJobResult option"
  error :: "string option"

text \<open>
  \<^verbatim>\<open>interface ApiResponse<T> { success: boolean; data?: T; error?: {code, message, details?} }\<close>.
  The two optional members stay optional fields, so that "exactly one is populated" is a
  property to prove and not a property of the type.
\<close>

record 'a ApiError =
  code :: string
  message :: string
  details :: "'a option"

record 'a ApiResponse =
  success :: bool
  data :: "'a option"
  err :: "'a ApiError option"

record KreaClient =
  apiKey :: string
  baseUrl :: string
  timeout :: int
  webhookUrl :: "string option"

section \<open>Template strings: decimal rendering of numbers\<close>

text \<open>
  \<^verbatim>\<open>`${n}`\<close> and \<^verbatim>\<open>String(n)\<close> render an integral number in plain decimal (for
  magnitudes below \<open>10^21\<close>, which covers every status code, limit and timeout here).
\<close>

definition digit_char :: "nat \<Rightarrow> char" where
  "digit_char d = ''0123456789'' ! d"

function show_nat :: "nat \<Rightarrow> string" where
  "show_nat n = (if n < 10 then [digit_char n] else show_nat (n div 10) @ [digit_char (n mod 10)])"
  by pat_completeness auto
termination
  by (relation "measure (\<lambda>n. n)") auto

declare show_nat.simps [simp del]

definition show_int :: "int \<Rightarrow> string" where
  "show_int i = (if i < 0 then ''-'' @ show_nat (nat (- i)) else show_nat (nat i))"

section \<open>The environment: clock, network and timers\<close>

text \<open>
  The client talks to three things it does not control: the wall clock (\<^verbatim>\<open>Date.now()\<close>),
  the network (\<^verbatim>\<open>fetch\<close> and \<^verbatim>\<open>response.json()\<close>) and the timer queue
  (\<^verbatim>\<open>setTimeout\<close>). They are an explicit world that every operation takes and returns:
  \<^item> \<open>now\<close> is the current reading of the clock, in milliseconds. Time only passes while
    the code awaits, and never runs backwards;
  \<^item> \<open>net\<close> is the script of the network: for each successive HTTP call, how long it takes
    and how it ends;
  \<^item> \<open>naps\<close> is the script of the timer queue: for each successive \<^verbatim>\<open>setTimeout\<close>
    that the code awaits, how long it really takes to fire (no relation to the requested
    delay is assumed);
  \<^item> \<open>log\<close> records, in order and with the clock reading at their start, the HTTP calls
    made (request and normalised response) and the delays requested from the timer.
  A script that is too short for the run ends the run with \<open>ScriptExhausted\<close>.
\<close>

text \<open>What a \<^verbatim>\<open>catch (err)\<close> can receive: an \<^verbatim>\<open>Error\<close> object with its name and
  message, or any other thrown value.\<close>

datatype Thrown = ErrorObj string string | NonError

text \<open>
  What \<^verbatim>\<open>await response.json()\<close> gives: it throws (an empty body, text that is not
  JSON), or it yields JSON \<^verbatim>\<open>null\<close>, or it yields a value, which the unchecked
  \<^verbatim>\<open>as T\<close> takes as a \<^verbatim>\<open>T\<close> and whose \<^verbatim>\<open>message\<close> property, when it has one, is
  what \<^verbatim>\<open>(data as Record<string, unknown>)?.message\<close> reads. Nothing checks the body,
  so \<^verbatim>\<open>null\<close> goes through as the data of a successful result.
\<close>

datatype 'a JsonBody = JsonThrows Thrown | JsonNull | Parsed 'a "string option"

text \<open>How one HTTP call ends: \<^verbatim>\<open>fetch\<close> rejects (the abort timer fired, the connection
  failed, the URL was invalid), or a response with a status code arrives, whose body
  \<^verbatim>\<open>response.json()\<close> parses or fails to parse.\<close>

datatype 'a FetchOutcome = FetchThrows Thrown | Responded nat "'a JsonBody"

datatype ParamValue = PStr string | PNum int | PBool bool

record HttpRequest =
  http_method :: string
  http_url :: string
  http_query :: "(string \<times> string) list"
  http_authorization :: string
  http_body :: "(string \<times> string option) list option"
  http_abort_after :: int

datatype 'a Action = Fetch HttpRequest "'a ApiResponse" | Sleep int

record 'a World =
  now :: int
  net :: "(nat \<times> 'a FetchOutcome) list"
  naps :: "nat list"
  log :: "(int \<times> 'a Action) list"

datatype Stop = ScriptExhausted | TypeError

text \<open>A run of an operation ends with the value the promise resolves to, or with the
  reason it does not, and leaves the world as the operation left it.\<close>

type_synonym ('r, 'a) run = "(Stop + 'r) \<times> 'a World"

section \<open>HTTP methods (KreaClient.request, get, post, delete)\<close>

text \<open>\<^verbatim>\<open>new KreaClient(config)\<close>: the base URL defaults to the public API and loses one
  trailing slash; a missing or zero timeout becomes 120000 ms.\<close>

definition strip_trailing_slash :: "string \<Rightarrow> string" where
  "strip_trailing_slash s = (if s \<noteq> [] \<and> last s = CHR ''/'' then butlast s else s)"

definition new_KreaClient :: "string \<Rightarrow> string option \<Rightarrow> int option \<Rightarrow> string option \<Rightarrow> KreaClient" where
  "new_KreaClient key base tmo hook =
     \<lparr> apiKey = key,
       baseUrl = strip_trailing_slash
         (case base of None \<Rightarrow> ''https://api.krea.ai''
          | Some u \<Rightarrow> if u = [] then ''https://api.krea.ai'' else u),
       timeout = (case tmo of None \<Rightarrow> 120000 | Some t \<Rightarrow> if t = 0 then 120000 else t),
       webhookUrl = hook \<rparr>"

text \<open>\<^verbatim>\<open>String(value)\<close> on a query parameter.\<close>

fun String :: "ParamValue \<Rightarrow> string" where
  "String (PStr s) = s"
| "String (PNum n) = show_int n"
| "String (PBool b) = (if b then ''true'' else ''false'')"

text \<open>
  \<^verbatim>\<open>Object.entries(options.params).forEach(([key, value]) => { if (value !== undefined)
  url.searchParams.append(key, String(value)) })\<close>: the parameters are visited in the
  order the object literal lists them, and an undefined one adds nothing.
\<close>

fun searchParams :: "(string \<times> ParamValue option) list \<Rightarrow> (string \<times> string) list" where
  "searchParams [] = []"
| "searchParams ((key, None) # ps) = searchParams ps"
| "searchParams ((key, Some v) # ps) = (key, String v) # searchParams ps"

text \<open>\<^verbatim>\<open>response.ok\<close>: the status is in the range 200 to 299.\<close>

definition response_ok :: "nat \<Rightarrow> bool" where
  "response_ok st = (200 \<le> st \<and> st \<le> 299)"

text \<open>The \<^verbatim>\<open>catch\<close> block of \<^verbatim>\<open>request\<close>.\<close>

fun caught :: "Thrown \<Rightarrow> 'a ApiResponse" where
  "caught (ErrorObj name msg) =
     (if name = ''AbortError''
      then \<lparr> success = False, data = None,
             err = Some \<lparr> code = ''TIMEOUT'', message = ''Request timed out'', details = None \<rparr> \<rparr>
      else \<lparr> success = False, data = None,
             err = Some \<lparr> code = ''REQUEST_ERROR'', message = msg, details = None \<rparr> \<rparr>)"
| "caught NonError =
     \<lparr> success = False, data = None,
       err = Some \<lparr> code = ''REQUEST_ERROR'', message = ''Unknown error'', details = None \<rparr> \<rparr>"

text \<open>The \<^verbatim>\<open>try\<close> block of \<^verbatim>\<open>request\<close>, from the outcome of the call on: a
  non-2xx status gives \<^verbatim>\<open>HTTP_<status>\<close> with the body's message, or the fallback text
  when that message is missing or empty; a 2xx status gives the parsed body as data,
  which is no data when the body is \<^verbatim>\<open>null\<close>.\<close>

fun normalise :: "'a FetchOutcome \<Rightarrow> 'a ApiResponse" where
  "normalise (FetchThrows t) = caught t"
| "normalise (Responded st (JsonThrows t)) = caught t"
| "normalise (Responded st JsonNull) =
     (if \<not> response_ok st
      then \<lparr> success = False, data = None,
             err = Some \<lparr> code = ''HTTP_'' @ show_nat st,
                          message = ''Request failed with status '' @ show_nat st,
                          details = None \<rparr> \<rparr>
      else \<lparr> success = True, data = None, err = None \<rparr>)"
| "normalise (Responded st (Parsed d m)) =
     (if \<not> response_ok st
      then \<lparr> success = False, data = None,
             err = Some \<lparr> code = ''HTTP_'' @ show_nat st,
                          message = (case m of
                                       None \<Rightarrow> ''Request failed with status '' @ show_nat st
                                     | Some s \<Rightarrow> if s = [] then ''Request failed with status '' @ show_nat st
                                                else s),
                          details = Some d \<rparr> \<rparr>
      else \<lparr> success = True, data = Some d, err = None \<rparr>)"

definition build_request ::
  "KreaClient \<Rightarrow> string \<Rightarrow> string \<Rightarrow> (string \<times> string option) list option \<Rightarrow>
   (string \<times> ParamValue option) list \<Rightarrow> HttpRequest" where
  "build_request c method endpoint body params =
     \<lparr> http_method = method,
       http_url = baseUrl c @ endpoint,
       http_query = searchParams params,
       http_authorization = ''Bearer '' @ apiKey c,
       http_body = body,
       http_abort_after = timeout c \<rparr>"

definition request ::
  "KreaClient \<Rightarrow> string \<Rightarrow> string \<Rightarrow> (string \<times> string option) list option \<Rightarrow>
   (string \<times> ParamValue option) list \<Rightarrow> 'a World \<Rightarrow> ('a ApiResponse, 'a) run" where
  "request c method endpoint body params w =
     (case net w of
        [] \<Rightarrow> (Inl ScriptExhausted, w)
      | (latency, outcome) # rest \<Rightarrow>
          let req = build_request c method endpoint body params;
              res = normalise outcome
          in (Inr res, w\<lparr> now := now w + int latency, net := rest,
                          log := log w @ [(now w, Fetch req res)] \<rparr>))"

definition get ::
  "KreaClient \<Rightarrow> string \<Rightarrow> (string \<times> ParamValue option) list \<Rightarrow> 'a World \<Rightarrow> ('a ApiResponse, 'a) run" where
  "get c endpoint params w = request c ''GET'' endpoint None params w"

definition post ::
  "KreaClient \<Rightarrow> string \<Rightarrow> (string \<times> string option) list option \<Rightarrow> 'a World \<Rightarrow> ('a ApiResponse, 'a) run" where
  "post c endpoint body w = request c ''POST'' endpoint body [] w"

definition delete ::
  "KreaClient \<Rightarrow> string \<Rightarrow> 'a World \<Rightarrow> ('a ApiResponse, 'a) run" where
  "delete c endpoint w = request c ''DELETE'' endpoint None [] w"

section \<open>Jobs API\<close>

record ListJobsParams =
  limit :: "int option"
  offset :: "int option"
  status_filter :: "string option"
  type_filter :: "string option"

text \<open>\<^verbatim>\<open>listJobs\<close>: \<^verbatim>\<open>status: params.status !== "all" ? params.status : undefined\<close>
  and \<^verbatim>\<open>type: params.type\<close>.\<close>

definition listJobs_params :: "ListJobsParams \<Rightarrow> (string \<times> ParamValue option) list" where
  "listJobs_params p =
     [ (''limit'', map_option PNum (limit p)),
       (''offset'', map_option PNum (offset p)),
       (''status'', if status_filter p \<noteq> Some ''all'' then map_option PStr (status_filter p) else None),
       (''type'', map_option PStr (type_filter p)) ]"

definition listJobs :: "KreaClient \<Rightarrow> ListJobsParams \<Rightarrow> 'a World \<Rightarrow> ('a ApiResponse, 'a) run" where
  "listJobs c p w = get c ''/v1/jobs'' (listJobs_params p) w"

definition getJob :: "KreaClient \<Rightarrow> string \<Rightarrow> KreaJob World \<Rightarrow> (KreaJob ApiResponse, KreaJob) run" where
  "getJob c jobId w = get c (''/v1/jobs/'' @ jobId) [] w"

definition deleteJob :: "KreaClient \<Rightarrow> string \<Rightarrow> 'a World \<Rightarrow> ('a ApiResponse, 'a) run" where
  "deleteJob c jobId w = delete c (''/v1/jobs/'' @ jobId) w"

text \<open>\<^verbatim>\<open>await new Promise(resolve => setTimeout(resolve, pollIntervalMs))\<close>.\<close>

definition sleep :: "int \<Rightarrow> 'a World \<Rightarrow> (unit, 'a) run" where
  "sleep ms w =
     (case naps w of
        [] \<Rightarrow> (Inl ScriptExhausted, w)
      | d # ds \<Rightarrow> (Inr (), w\<lparr> now := now w + int d, naps := ds,
                               log := log w @ [(now w, Sleep ms)] \<rparr>))"

definition terminal :: "JobStatus \<Rightarrow> bool" where
  "terminal s = (s = completed \<or> s = failed \<or> s = cancelled)"

definition timeout_result :: "string \<Rightarrow> int \<Rightarrow> KreaJob ApiResponse" where
  "timeout_result jobId timeoutMs =
     \<lparr> success = False, data = None,
       err = Some \<lparr> code = ''TIMEOUT'',
                    message = ''Job '' @ jobId @ '' did not complete within '' @ show_int timeoutMs @ ''ms'',
                    details = None \<rparr> \<rparr>"

lemma request_net_shorter:
  "request c m e b ps w = (Inr r, w') \<Longrightarrow> length (net w') < length (net w)"
  by (auto simp: request_def Let_def split: list.splits)

lemma getJob_net_shorter:
  "getJob c j w = (Inr r, w') \<Longrightarrow> length (net w') < length (net w)"
  unfolding getJob_def get_def by (rule request_net_shorter)

lemma sleep_net: "sleep ms w = (u, w') \<Longrightarrow> net w' = net w"
  by (auto simp: sleep_def split: list.splits)

text \<open>
  The \<^verbatim>\<open>while (Date.now() - startTime < timeoutMs)\<close> loop of \<^verbatim>\<open>waitForJob\<close>.
  \<^verbatim>\<open>result.data!\<close> on a successful result without data would make the read of
  \<^verbatim>\<open>job.status\<close> throw a TypeError.
\<close>

function waitLoop ::
  "KreaClient \<Rightarrow> string \<Rightarrow> int \<Rightarrow> int \<Rightarrow> int \<Rightarrow> KreaJob World \<Rightarrow> (KreaJob ApiResponse, KreaJob) run" where
  "waitLoop c jobId startTime timeoutMs pollIntervalMs w =
     (if now w - startTime < timeoutMs then
        (case getJob c jobId w of
           (Inl e, w1) \<Rightarrow> (Inl e, w1)
         | (Inr res, w1) \<Rightarrow>
             if \<not> success res then (Inr res, w1)
             else (case data res of
                     None \<Rightarrow> (Inl TypeError, w1)
                   | Some job \<Rightarrow>
                       if status job = completed \<or> status job = failed \<or> status job = cancelled
                       then (Inr res, w1)
                       else (case sleep pollIntervalMs w1 of
                               (Inl e, w2) \<Rightarrow> (Inl e, w2)
                             | (Inr u, w2) \<Rightarrow> waitLoop c jobId startTime timeoutMs pollIntervalMs w2)))
      else (Inr (timeout_result jobId timeoutMs), w))"
  by pat_completeness auto
termination
proof (relation "measure (\<lambda>(c, jobId, startTime, timeoutMs, pollIntervalMs, w). length (net w))")
  show "wf (measure (\<lambda>(c, jobId, startTime, timeoutMs, pollIntervalMs, w). length (net w)))"
    by simp
next
  fix c :: KreaClient and jobId :: string and startTime timeoutMs pollIntervalMs :: int
    and w w1 w2 :: "KreaJob World" and x y res u
  assume "(x, w1) = getJob c jobId w" "x = Inr res"
    and "(y, w2) = sleep pollIntervalMs w1"
  then have "length (net w1) < length (net w)" "net w2 = net w1"
    using getJob_net_shorter [of c jobId w res w1] sleep_net [of pollIntervalMs w1 y w2]
    by auto
  then show "((c, jobId, startTime, timeoutMs, pollIntervalMs, w2),
              (c, jobId, startTime, timeoutMs, pollIntervalMs, w))
             \<in> measure (\<lambda>(c, jobId, startTime, timeoutMs, pollIntervalMs, w). length (net w))"
    by simp
qed

declare waitLoop.simps [simp del]

text \<open>\<^verbatim>\<open>waitForJob(jobId, timeoutMs = 120000, pollIntervalMs = 2000)\<close>: an omitted
  argument takes its default; \<^verbatim>\<open>startTime\<close> is the clock at the call.\<close>

definition waitForJob ::
  "KreaClient \<Rightarrow> string \<Rightarrow> int option \<Rightarrow> int option \<Rightarrow> KreaJob World \<Rightarrow> (KreaJob ApiResponse, KreaJob) run" where
  "waitForJob c jobId timeoutArg pollArg w =
     (let timeoutMs = (case timeoutArg of None \<Rightarrow> 120000 | Some t \<Rightarrow> t);
          pollIntervalMs = (case pollArg of None \<Rightarrow> 2000 | Some p \<Rightarrow> p);
          startTime = now w
      in waitLoop c jobId startTime timeoutMs pollIntervalMs w)"

section \<open>Assets API, image and video generation\<close>

definition deleteAsset :: "KreaClient \<Rightarrow> string \<Rightarrow> 'a World \<Rightarrow> ('a ApiResponse, 'a) run" where
  "deleteAsset c assetId w = delete c (''/v1/assets/'' @ assetId) w"

text \<open>\<^verbatim>\<open>{ ...params, webhook_url: this.webhookUrl }\<close>: a key already among the
  parameters keeps its place and takes the client's value, otherwise the key is added
  last. An undefined value is \<open>None\<close> (and is dropped by \<^verbatim>\<open>JSON.stringify\<close>).\<close>

definition with_webhook ::
  "(string \<times> string option) list \<Rightarrow> string option \<Rightarrow> (string \<times> string option) list" where
  "with_webhook params hook =
     (if ''webhook_url'' \<in> set (map fst params)
      then map (\<lambda>(k, v). if k = ''webhook_url'' then (k, hook) else (k, v)) params
      else params @ [(''webhook_url'', hook)])"

definition generateImage ::
  "KreaClient \<Rightarrow> string \<Rightarrow> (string \<times> string option) list \<Rightarrow> bool \<Rightarrow> KreaJob World \<Rightarrow>
   (KreaJob ApiResponse, KreaJob) run" where
  "generateImage c endpoint params waitForCompletion w =
     (let body = with_webhook params (webhookUrl c)
      in case post c (''/v1/image/'' @ endpoint) (Some body) w of
           (Inl e, w1) \<Rightarrow> (Inl e, w1)
         | (Inr res, w1) \<Rightarrow>
             if \<not> success res \<or> \<not> waitForCompletion then (Inr res, w1)
             else (case data res of
                     None \<Rightarrow> (Inl TypeError, w1)
                   | Some job \<Rightarrow> waitForJob c (id' job) None None w1))"

definition generateVideo ::
  "KreaClient \<Rightarrow> string \<Rightarrow> (string \<times> string option) list \<Rightarrow> bool \<Rightarrow> KreaJob World \<Rightarrow>
   (KreaJob ApiResponse, KreaJob) run" where
  "generateVideo c endpoint params waitForCompletion w =
     (let body = with_webhook params (webhookUrl c)
      in case post c (''/v1/video/'' @ endpoint) (Some body) w of
           (Inl e, w1) \<Rightarrow> (Inl e, w1)
         | (Inr res, w1) \<Rightarrow>
             if \<not> success res \<or> \<not> waitForCompletion then (Inr res, w1)
             else (case data res of
                     None \<Rightarrow> (Inl TypeError, w1)
                   | Some job \<Rightarrow> waitForJob c (id' job) (Some 300000) None w1))"

section \<open>Response formatting and the deletion tools\<close>

text \<open>
  Texts are byte strings: the three symbols the formatters print are written as their
  UTF-8 bytes. \<^verbatim>\<open>text.length\<close> is the length of the list, which is the source's count
  on ASCII text.
\<close>

definition cross_mark :: string where
  "cross_mark = [CHR 0xE2, CHR 0x9D, CHR 0x8C]"

definition light_bulb :: string where
  "light_bulb = [CHR 0xF0, CHR 0x9F, CHR 0x92, CHR 0xA1]"

definition check_mark :: string where
  "check_mark = [CHR 0xE2, CHR 0x9C, CHR 0x85]"

definition CHARACTER_LIMIT :: nat where
  "CHARACTER_LIMIT = 10000"

record ToolResult =
  content :: "string list"
  structuredContent :: "(string \<times> string) list option"
  isError :: "bool option"

definition truncateText :: "string \<Rightarrow> nat \<Rightarrow> string" where
  "truncateText text lim =
     (if length text \<le> lim then text
      else take (lim - 100) text
           @ [CHR 0x0A, CHR 0x0A] @ ''... [Truncated. Use pagination for more results.]'')"

definition formatTextResponse :: "string \<Rightarrow> (string \<times> string) list option \<Rightarrow> ToolResult" where
  "formatTextResponse text structured =
     \<lparr> content = [truncateText text CHARACTER_LIMIT], structuredContent = structured, isError = None \<rparr>"

text \<open>\<^verbatim>\<open>suggestion ? ... : ...\<close>: a missing or empty suggestion prints the message alone.\<close>

definition formatErrorResponse :: "string \<Rightarrow> string option \<Rightarrow> ToolResult" where
  "formatErrorResponse msg suggestion =
     (let errorText =
        (case suggestion of
           None \<Rightarrow> cross_mark @ '' **Error**: '' @ msg
         | Some s \<Rightarrow>
             if s = [] then cross_mark @ '' **Error**: '' @ msg
             else cross_mark @ '' **Error**: '' @ msg @ [CHR 0x0A, CHR 0x0A]
                  @ light_bulb @ '' **Suggestion**: '' @ s)
      in \<lparr> content = [errorText], structuredContent = None, isError = Some True \<rparr>)"

text \<open>\<^verbatim>\<open>DeleteJobSchema\<close> and \<^verbatim>\<open>DeleteAssetSchema\<close>: a non-empty identifier, and
  \<^verbatim>\<open>confirm: z.boolean().default(false)\<close>.\<close>

record DeleteJobInput =
  job_id :: string
  confirm :: bool

record DeleteAssetInput =
  asset_id :: string
  confirm_asset :: bool

definition DeleteJobSchema :: "string \<Rightarrow> bool option \<Rightarrow> DeleteJobInput option" where
  "DeleteJobSchema jid cf =
     (if length jid < 1 then None
      else Some \<lparr> job_id = jid, confirm = (case cf of None \<Rightarrow> False | Some b \<Rightarrow> b) \<rparr>)"

definition DeleteAssetSchema :: "string \<Rightarrow> bool option \<Rightarrow> DeleteAssetInput option" where
  "DeleteAssetSchema aid cf =
     (if length aid < 1 then None
      else Some \<lparr> asset_id = aid, confirm_asset = (case cf of None \<Rightarrow> False | Some b \<Rightarrow> b) \<rparr>)"

text \<open>The handlers registered as \<^verbatim>\<open>krea_delete_job\<close> and \<^verbatim>\<open>krea_delete_asset\<close>.
  \<^verbatim>\<open>result.error!.message\<close> on a failure without an error member would throw.\<close>

definition krea_delete_job :: "KreaClient \<Rightarrow> DeleteJobInput \<Rightarrow> 'a World \<Rightarrow> (ToolResult, 'a) run" where
  "krea_delete_job client params w =
     (if \<not> confirm params
      then (Inr (formatErrorResponse ''Deletion not confirmed'' (Some ''Set confirm=true to delete'')), w)
      else (case deleteJob client (job_id params) w of
              (Inl e, w1) \<Rightarrow> (Inl e, w1)
            | (Inr res, w1) \<Rightarrow>
                if \<not> success res
                then (case err res of
                        None \<Rightarrow> (Inl TypeError, w1)
                      | Some e \<Rightarrow> (Inr (formatErrorResponse (message e) None), w1))
                else (Inr (formatTextResponse
                             (check_mark @ '' Job `'' @ job_id params @ ''` deleted successfully.'') None),
                      w1)))"

definition krea_delete_asset :: "KreaClient \<Rightarrow> DeleteAssetInput \<Rightarrow> 'a World \<Rightarrow> (ToolResult, 'a) run" where
  "krea_delete_asset client params w =
     (if \<not> confirm_asset params
      then (Inr (formatErrorResponse ''Deletion not confirmed'' (Some ''Set confirm=true to delete'')), w)
      else (case deleteAsset client (asset_id params) w of
              (Inl e, w1) \<Rightarrow> (Inl e, w1)
            | (Inr res, w1) \<Rightarrow>
                if \<not> success res
                then (case err res of
                        None \<Rightarrow> (Inl TypeError, w1)
                      | Some e \<Rightarrow> (Inr (formatErrorResponse (message e) None), w1))
                else (Inr (formatTextResponse
                             (check_mark @ '' Asset `'' @ asset_id params @ ''` deleted successfully.'') None),
                      w1)))"

section \<open>Vocabulary of the properties\<close>

text \<open>The request that \<^verbatim>\<open>getJob\<close> sends.\<close>

definition getJob_request :: "KreaClient \<Rightarrow> string \<Rightarrow> HttpRequest" where
  "getJob_request c jobId = build_request c ''GET'' (''/v1/jobs/'' @ jobId) None []"

text \<open>The world after one \<^verbatim>\<open>getJob\<close> that took \<open>latency\<close> and ended with \<open>outcome\<close>,
  and the world after one timer wait that took \<open>d\<close>.\<close>

definition fetched :: "KreaClient \<Rightarrow> string \<Rightarrow> nat \<Rightarrow> KreaJob FetchOutcome \<Rightarrow> KreaJob World \<Rightarrow> KreaJob World" where
  "fetched c jobId latency outcome w =
     w\<lparr> now := now w + int latency, net := tl (net w),
        log := log w @ [(now w, Fetch (getJob_request c jobId) (normalise outcome))] \<rparr>"

definition slept :: "int \<Rightarrow> nat \<Rightarrow> 'a World \<Rightarrow> 'a World" where
  "slept ms d w = w\<lparr> now := now w + int d, naps := tl (naps w), log := log w @ [(now w, Sleep ms)] \<rparr>"

text \<open>A fetch result that keeps the loop polling: a successful read of a job that is
  pending or processing.\<close>

definition in_progress :: "KreaJob ApiResponse \<Rightarrow> bool" where
  "in_progress r = (success r \<and> (case data r of None \<Rightarrow> False | Some job \<Rightarrow> \<not> terminal (status job)))"

text \<open>A successful result without data: what \<^verbatim>\<open>result.data!\<close> does not expect.\<close>

definition missing_data :: "'a ApiResponse \<Rightarrow> bool" where
  "missing_data r = (success r \<and> data r = None)"


text \<open>
  A populated error: the code is one of those the client produces (\<^verbatim>\<open>TIMEOUT\<close>,
  \<^verbatim>\<open>REQUEST_ERROR\<close>, or \<^verbatim>\<open>HTTP_\<close> followed by a status), and the message is not empty,
  save that a \<^verbatim>\<open>REQUEST_ERROR\<close> carries the message of the thrown error as it is.
\<close>

definition error_ok :: "'a ApiError \<Rightarrow> bool" where
  "error_ok e =
     ((code e = ''TIMEOUT'' \<or> code e = ''REQUEST_ERROR''
        \<or> (take 5 (code e) = ''HTTP_'' \<and> 5 < length (code e)))
      \<and> (message e \<noteq> [] \<or> code e = ''REQUEST_ERROR''))"

definition failure_ok :: "'a ApiResponse \<Rightarrow> bool" where
  "failure_ok r = (data r = None \<and> (case err r of None \<Rightarrow> False | Some e \<Rightarrow> error_ok e))"


definition envelope_but_data :: "'a ApiResponse \<Rightarrow> bool" where
  "envelope_but_data r = (if success r then err r = None else failure_ok r)"

definition is_Fetch :: "'a Action \<Rightarrow> bool" where
  "is_Fetch a = (case a of Fetch q x \<Rightarrow> True | Sleep ms \<Rightarrow> False)"

text \<open>The queries of the HTTP calls a world has logged, in order.\<close>

definition sent_queries :: "'a World \<Rightarrow> (string \<times> string) list list" where
  "sent_queries w = concat (map (\<lambda>(tm, a). case a of Fetch q x \<Rightarrow> [http_query q] | Sleep ms \<Rightarrow> []) (log w))"

text \<open>The request that \<^verbatim>\<open>listJobs\<close> sends.\<close>

definition listJobs_request :: "KreaClient \<Rightarrow> ListJobsParams \<Rightarrow> HttpRequest" where
  "listJobs_request c p = build_request c ''GET'' ''/v1/jobs'' None (listJobs_params p)"

text \<open>
  What a run of the wait loop may log, given the clock reading \<open>s\<close> at its start, its
  budget \<open>t\<close> and its outcome: every fetch is a \<^verbatim>\<open>getJob\<close> of the awaited job that
  starts before the deadline and yields a result well formed but for its data, and a fetch
  whose result is not an in-progress job is the last entry of the log and decides the
  run: its result is returned, or, when it is a success without data, the run ends on a
  TypeError.
\<close>

text \<open>How a fetch that ends the polling decides the run: its result is returned, or,
  when it is a success without data, the run ends on a TypeError.\<close>

definition decided_by :: "Stop + 'a ApiResponse \<Rightarrow> 'a ApiResponse \<Rightarrow> bool" where
  "decided_by res x = (if missing_data x then res = Inl TypeError else res = Inr x)"

definition trace_ok ::
  "KreaClient \<Rightarrow> string \<Rightarrow> int \<Rightarrow> int \<Rightarrow> Stop + KreaJob ApiResponse \<Rightarrow> (int \<times> KreaJob Action) list \<Rightarrow> bool" where
  "trace_ok c j s t res L =
     (\<forall>tm q x. (tm, Fetch q x) \<in> set L \<longrightarrow>
        tm - s < t \<and> q = getJob_request c j \<and> envelope_but_data x \<and>
        (in_progress x \<or>
         (decided_by res x \<and> (\<exists>L0. L = L0 @ [(tm, Fetch q x)]))))"

text \<open>The actions of polling through the observations \<open>pre\<close>: for each one a fetch
  that yields it, followed by a wait of the poll interval.\<close>

definition polls :: "KreaClient \<Rightarrow> string \<Rightarrow> int \<Rightarrow> (nat \<times> KreaJob FetchOutcome) list \<Rightarrow> KreaJob Action list" where
  "polls c j p pre = concat (map (\<lambda>it. [Fetch (getJob_request c j) (normalise (snd it)), Sleep p]) pre)"



text \<open>\<^verbatim>\<open>{ deleted: boolean }\<close>, the body of a successful delete.\<close>

record Deleted =
  deleted :: bool

subsection \<open>Concrete inputs for the examples\<close>

definition demo_client :: KreaClient where
  "demo_client = new_KreaClient ''k'' None None None"

definition demo_job :: "JobStatus \<Rightarrow> KreaJob" where
  "demo_job s = \<lparr> id' = ''j1'', status = s, type = ''image'', createdAt = ''t0'', updatedAt = ''t1'',
                  completedAt = None, result = None, error = None \<rparr>"

definition demo_world :: "(nat \<times> 'a FetchOutcome) list \<Rightarrow> nat list \<Rightarrow> 'a World" where
  "demo_world script timers = \<lparr> now = 1000, net = script, naps = timers, log = [] \<rparr>"

definition demo_ok :: "JobStatus \<Rightarrow> KreaJob FetchOutcome" where
  "demo_ok s = Responded 200 (Parsed (demo_job s) None)"

section \<open>The steps of the wait loop\<close>

lemma show_nat_nonempty: "show_nat n \<noteq> []"
  by (subst show_nat.simps) simp

lemma caught_failure: "\<not> success (caught t) \<and> failure_ok (caught t)"
  by (cases t) (simp_all add: failure_ok_def error_ok_def)

lemma normalise_envelope: "envelope_but_data (normalise out)"
proof (cases out)
  case (FetchThrows t)
  then show ?thesis by (simp add: envelope_but_data_def caught_failure)
next
  case (Responded st b)
  show ?thesis
  proof (cases b)
    case (JsonThrows t)
    with Responded show ?thesis by (simp add: envelope_but_data_def caught_failure)
  next
    case JsonNull
    with Responded show ?thesis
      by (simp add: envelope_but_data_def failure_ok_def error_ok_def show_nat_nonempty)
  next
    case (Parsed d m)
    with Responded show ?thesis
      by (cases m) (simp_all add: envelope_but_data_def failure_ok_def error_ok_def show_nat_nonempty)
  qed
qed



lemma getJob_empty: "net w = [] \<Longrightarrow> getJob c j w = (Inl ScriptExhausted, w)"
  by (simp add: getJob_def get_def request_def)

lemma getJob_Cons:
  "net w = (lat, out) # rest \<Longrightarrow> getJob c j w = (Inr (normalise out), fetched c j lat out w)"
  by (simp add: getJob_def get_def request_def fetched_def getJob_request_def Let_def)

lemma sleep_empty: "naps w = [] \<Longrightarrow> sleep ms w = (Inl ScriptExhausted, w)"
  by (simp add: sleep_def)

lemma sleep_Cons: "naps w = d # ds \<Longrightarrow> sleep ms w = (Inr (), slept ms d w)"
  by (simp add: sleep_def slept_def)

lemma waitLoop_expired:
  "\<not> now w - s < t \<Longrightarrow> waitLoop c j s t p w = (Inr (timeout_result j t), w)"
  by (simp add: waitLoop.simps)

lemma waitLoop_exhausted:
  "now w - s < t \<Longrightarrow> net w = [] \<Longrightarrow> waitLoop c j s t p w = (Inl ScriptExhausted, w)"
  by (subst waitLoop.simps) (simp add: getJob_empty)

lemma waitLoop_stop:
  assumes "now w - s < t" "net w = (lat, out) # rest" "\<not> in_progress (normalise out)"
    "\<not> missing_data (normalise out)"
  shows "waitLoop c j s t p w = (Inr (normalise out), fetched c j lat out w)"
  using assms
  by (subst waitLoop.simps)
     (auto simp: getJob_Cons in_progress_def missing_data_def terminal_def split: option.splits)

lemma waitLoop_throws:
  assumes "now w - s < t" "net w = (lat, out) # rest" "missing_data (normalise out)"
  shows "waitLoop c j s t p w = (Inl TypeError, fetched c j lat out w)"
  using assms
  by (subst waitLoop.simps) (auto simp: getJob_Cons missing_data_def)

lemma waitLoop_no_timer:
  assumes "now w - s < t" "net w = (lat, out) # rest" "in_progress (normalise out)"
    "naps w = []"
  shows "waitLoop c j s t p w = (Inl ScriptExhausted, fetched c j lat out w)"
  using assms
  by (subst waitLoop.simps)
     (auto simp: getJob_Cons in_progress_def terminal_def sleep_empty fetched_def split: option.splits)

lemma waitLoop_continue:
  assumes "now w - s < t" "net w = (lat, out) # rest" "in_progress (normalise out)"
    "naps w = d # ds"
  shows "waitLoop c j s t p w = waitLoop c j s t p (slept p d (fetched c j lat out w))"
  using assms
  by (subst waitLoop.simps)
     (auto simp: getJob_Cons in_progress_def terminal_def sleep_Cons fetched_def split: option.splits)

lemma fetched_simps [simp]:
  "now (fetched c j lat out w) = now w + int lat"
  "net (fetched c j lat out w) = tl (net w)"
  "naps (fetched c j lat out w) = naps w"
  "log (fetched c j lat out w) = log w @ [(now w, Fetch (getJob_request c j) (normalise out))]"
  by (simp_all add: fetched_def)

lemma slept_simps [simp]:
  "now (slept ms d w) = now w + int d"
  "net (slept ms d w) = net w"
  "naps (slept ms d w) = tl (naps w)"
  "log (slept ms d w) = log w @ [(now w, Sleep ms)]"
  by (simp_all add: slept_def)

lemma waitLoop_induct [case_names expired exhausted throws stop no_timer continue]:
  fixes w :: "KreaJob World"
  assumes expired: "\<And>w. \<not> now w - s < t \<Longrightarrow> P w"
    and exhausted: "\<And>w. now w - s < t \<Longrightarrow> net w = [] \<Longrightarrow> P w"
    and throws: "\<And>w lat out rest. now w - s < t \<Longrightarrow> net w = (lat, out) # rest \<Longrightarrow>
                 missing_data (normalise out) \<Longrightarrow> P w"
    and stop: "\<And>w lat out rest. now w - s < t \<Longrightarrow> net w = (lat, out) # rest \<Longrightarrow>
                 \<not> in_progress (normalise out) \<Longrightarrow> \<not> missing_data (normalise out) \<Longrightarrow> P w"
    and no_timer: "\<And>w lat out rest. now w - s < t \<Longrightarrow> net w = (lat, out) # rest \<Longrightarrow>
                 in_progress (normalise out) \<Longrightarrow> naps w = [] \<Longrightarrow> P w"
    and continue: "\<And>w lat out rest d ds. now w - s < t \<Longrightarrow> net w = (lat, out) # rest \<Longrightarrow>
                 in_progress (normalise out) \<Longrightarrow> naps w = d # ds \<Longrightarrow>
                 P (slept p d (fetched c j lat out w)) \<Longrightarrow> P w"
  shows "P w"
proof (induction w rule: measure_induct_rule [where f = "\<lambda>w. length (net w)"])
  case (less w)
  show ?case
  proof (cases "now w - s < t")
    case False
    then show ?thesis by (rule expired)
  next
    case live: True
    show ?thesis
    proof (cases "net w")
      case Nil
      with live show ?thesis by (rule exhausted)
    next
      case (Cons item rest)
      obtain lat out where item: "item = (lat, out)" by (cases item)
      with Cons have nw: "net w = (lat, out) # rest" by simp
      show ?thesis
      proof (cases "in_progress (normalise out)")
        case idle: False
        show ?thesis
        proof (cases "missing_data (normalise out)")
          case True
          with live nw show ?thesis by (rule throws)
        next
          case False
          with live nw idle show ?thesis by (rule stop)
        qed
      next
        case busy: True
        show ?thesis
        proof (cases "naps w")
          case Nil
          with live nw busy show ?thesis by (rule no_timer)
        next
          case (Cons d ds)
          have "length (net (slept p d (fetched c j lat out w))) < length (net w)"
            using nw by simp
          then have "P (slept p d (fetched c j lat out w))" by (rule less.IH)
          with live nw busy Cons show ?thesis by (rule continue)
        qed
      qed
    qed
  qed
qed







lemma request_Cons:
  "net w = (lat, out) # rest \<Longrightarrow>
   request c m e b ps w =
     (Inr (normalise out),
      w\<lparr> now := now w + int lat, net := rest,
         log := log w @ [(now w, Fetch (build_request c m e b ps) (normalise out))] \<rparr>)"
  by (simp add: request_def Let_def)

section \<open>Traces of the wait loop\<close>

lemma trace_ok_Nil: "trace_ok c j s t res []"
  by (simp add: trace_ok_def)

lemma trace_ok_single:
  "tm - s < t \<Longrightarrow> \<not> missing_data (normalise out) \<Longrightarrow>
   trace_ok c j s t (Inr (normalise out)) [(tm, Fetch (getJob_request c j) (normalise out))]"
  by (simp add: trace_ok_def decided_by_def normalise_envelope)

lemma trace_ok_single_throws:
  "tm - s < t \<Longrightarrow> missing_data (normalise out) \<Longrightarrow>
   trace_ok c j s t (Inl TypeError) [(tm, Fetch (getJob_request c j) (normalise out))]"
  by (simp add: trace_ok_def decided_by_def normalise_envelope)

lemma trace_ok_single_busy:
  "tm - s < t \<Longrightarrow> in_progress (normalise out) \<Longrightarrow>
   trace_ok c j s t res [(tm, Fetch (getJob_request c j) (normalise out))]"
  by (simp add: trace_ok_def normalise_envelope)

lemma trace_ok_step:
  assumes "tm - s < t" "in_progress (normalise out)" "trace_ok c j s t res L"
  shows "trace_ok c j s t res ((tm, Fetch (getJob_request c j) (normalise out)) # (tm', Sleep p) # L)"
  unfolding trace_ok_def
proof (intro allI impI)
  fix tm0 q x
  assume mem: "(tm0, Fetch q x) \<in> set ((tm, Fetch (getJob_request c j) (normalise out)) # (tm', Sleep p) # L)"
  then consider (head) "tm0 = tm" "q = getJob_request c j" "x = normalise out"
    | (tail) "(tm0, Fetch q x) \<in> set L"
    by auto
  then show "tm0 - s < t \<and> q = getJob_request c j \<and> envelope_but_data x \<and>
        (in_progress x \<or> (decided_by res x \<and>
           (\<exists>L0. (tm, Fetch (getJob_request c j) (normalise out)) # (tm', Sleep p) # L = L0 @ [(tm0, Fetch q x)])))"
  proof cases
    case head
    with assms show ?thesis by (simp add: normalise_envelope)
  next
    case tail
    with assms(3) have a: "tm0 - s < t" "q = getJob_request c j" "envelope_but_data x"
      and b: "in_progress x \<or> (decided_by res x \<and> (\<exists>L0. L = L0 @ [(tm0, Fetch q x)]))"
      by (auto simp: trace_ok_def)
    from b show ?thesis
    proof
      assume "in_progress x"
      with a show ?thesis by simp
    next
      assume "decided_by res x \<and> (\<exists>L0. L = L0 @ [(tm0, Fetch q x)])"
      then obtain L0 where r: "decided_by res x" and l: "L = L0 @ [(tm0, Fetch q x)]" by blast
      have "(tm, Fetch (getJob_request c j) (normalise out)) # (tm', Sleep p) # L
            = ((tm, Fetch (getJob_request c j) (normalise out)) # (tm', Sleep p) # L0) @ [(tm0, Fetch q x)]"
        using l by simp
      with a r show ?thesis by blast
    qed
  qed
qed

lemma waitLoop_trace:
  "\<exists>L. log (snd (waitLoop c j s t p w)) = log w @ L \<and> trace_ok c j s t (fst (waitLoop c j s t p w)) L"
proof (induction w rule: waitLoop_induct [where s = s and t = t and p = p and c = c and j = j])
  case (expired w)
  then show ?case by (simp add: waitLoop_expired trace_ok_Nil)
next
  case (exhausted w)
  then show ?case by (simp add: waitLoop_exhausted trace_ok_Nil)
next
  case (throws w lat out rest)
  then show ?case by (simp add: waitLoop_throws trace_ok_single_throws)
next
  case (stop w lat out rest)
  then show ?case by (simp add: waitLoop_stop trace_ok_single)
next
  case (no_timer w lat out rest)
  then show ?case by (simp add: waitLoop_no_timer trace_ok_single_busy)
next
  case (continue w lat out rest d ds)
  let ?w2 = "slept p d (fetched c j lat out w)"
  from continue.IH obtain L where
    l: "log (snd (waitLoop c j s t p ?w2)) = log ?w2 @ L"
    and ok: "trace_ok c j s t (fst (waitLoop c j s t p ?w2)) L"
    by blast
  have eq: "waitLoop c j s t p w = waitLoop c j s t p ?w2"
    using continue.hyps by (rule waitLoop_continue)
  have "trace_ok c j s t (fst (waitLoop c j s t p ?w2))
          ((now w, Fetch (getJob_request c j) (normalise out)) # (now w + int lat, Sleep p) # L)"
    using continue.hyps(1,3) ok by (rule trace_ok_step)
  moreover have "log (snd (waitLoop c j s t p ?w2))
      = log w @ ((now w, Fetch (getJob_request c j) (normalise out)) # (now w + int lat, Sleep p) # L)"
    using l by simp
  ultimately show ?case unfolding eq by blast
qed

lemma waitForJob_trace:
  assumes "log (snd (waitForJob c j ta pa w)) = log w @ L"
  shows "trace_ok c j (now w) (case ta of None \<Rightarrow> 120000 | Some t \<Rightarrow> t) (fst (waitForJob c j ta pa w)) L"
proof -
  let ?t = "case ta of None \<Rightarrow> 120000 | Some t \<Rightarrow> t"
  let ?p = "case pa of None \<Rightarrow> 2000 | Some p \<Rightarrow> p"
  have w: "waitForJob c j ta pa w = waitLoop c j (now w) ?t ?p w"
    by (simp add: waitForJob_def)
  obtain L' where l: "log (snd (waitLoop c j (now w) ?t ?p w)) = log w @ L'"
    and ok: "trace_ok c j (now w) ?t (fst (waitLoop c j (now w) ?t ?p w)) L'"
    using waitLoop_trace [of c j "now w" ?t ?p w] by blast
  from l assms w have "L' = L" by simp
  with ok w show ?thesis by simp
qed

lemma polls_simps [simp]:
  "polls c j p [] = []"
  "polls c j p (it # pre) = Fetch (getJob_request c j) (normalise (snd it)) # Sleep p # polls c j p pre"
  by (simp_all add: polls_def)

lemma waitLoop_polls:
  assumes "net w = pre @ (lat, out) # rest"
    and "\<forall>it\<in>set pre. in_progress (normalise (snd it))"
    and "\<not> in_progress (normalise out)" "\<not> missing_data (normalise out)"
    and "naps w = ds @ later" "length ds = length pre"
    and "now w - s + int (sum_list (map fst pre)) + int (sum_list ds) < t"
  shows "\<exists>w' L. waitLoop c j s t p w = (Inr (normalise out), w')
           \<and> net w' = rest \<and> naps w' = later
           \<and> now w' = now w + int (sum_list (map fst pre)) + int (sum_list ds) + int lat
           \<and> log w' = log w @ L
           \<and> map snd L = polls c j p pre @ [Fetch (getJob_request c j) (normalise out)]"
  using assms
proof (induction pre arbitrary: w ds)
  case Nil
  then have live: "now w - s < t" and nw: "net w = (lat, out) # rest" and ds: "ds = []"
    by simp_all
  with Nil.prems(3,4,5) have "waitLoop c j s t p w = (Inr (normalise out), fetched c j lat out w)"
    and "naps w = later"
    by (simp_all add: waitLoop_stop)
  with nw ds show ?case by simp
next
  case (Cons it pre)
  obtain l0 o0 where it: "it = (l0, o0)" by (cases it)
  from Cons.prems(6) obtain d ds' where ds: "ds = d # ds'" and len: "length ds' = length pre"
    by (cases ds) simp_all
  let ?w2 = "slept p d (fetched c j l0 o0 w)"
  have nw: "net w = (l0, o0) # (pre @ (lat, out) # rest)"
    using Cons.prems(1) it by simp
  have busy: "in_progress (normalise o0)"
    using Cons.prems(2) it by simp
  have nap: "naps w = d # (ds' @ later)"
    using Cons.prems(5) ds by simp
  have live: "now w - s < t"
    using Cons.prems(7) by linarith
  have step: "waitLoop c j s t p w = waitLoop c j s t p ?w2"
    using live nw busy nap by (rule waitLoop_continue)
  have "\<exists>w' L. waitLoop c j s t p ?w2 = (Inr (normalise out), w')
           \<and> net w' = rest \<and> naps w' = later
           \<and> now w' = now ?w2 + int (sum_list (map fst pre)) + int (sum_list ds') + int lat
           \<and> log w' = log ?w2 @ L
           \<and> map snd L = polls c j p pre @ [Fetch (getJob_request c j) (normalise out)]"
  proof (rule Cons.IH)
    show "net ?w2 = pre @ (lat, out) # rest" using nw by simp
    show "\<forall>it\<in>set pre. in_progress (normalise (snd it))" using Cons.prems(2) by simp
    show "\<not> in_progress (normalise out)" by (rule Cons.prems(3))
    show "\<not> missing_data (normalise out)" by (rule Cons.prems(4))
    show "naps ?w2 = ds' @ later" using nap by simp
    show "length ds' = length pre" by (rule len)
    show "now ?w2 - s + int (sum_list (map fst pre)) + int (sum_list ds') < t"
      using Cons.prems(7) it ds by simp
  qed
  then obtain w' L where run: "waitLoop c j s t p ?w2 = (Inr (normalise out), w')"
    and st: "net w' = rest" "naps w' = later"
    and tm: "now w' = now ?w2 + int (sum_list (map fst pre)) + int (sum_list ds') + int lat"
    and lg: "log w' = log ?w2 @ L"
    and sh: "map snd L = polls c j p pre @ [Fetch (getJob_request c j) (normalise out)]"
    by blast
  let ?L = "(now w, Fetch (getJob_request c j) (normalise o0)) # (now w + int l0, Sleep p) # L"
  have "log w' = log w @ ?L" using lg by simp
  moreover have "map snd ?L = polls c j p (it # pre) @ [Fetch (getJob_request c j) (normalise out)]"
    using sh it by simp
  moreover have "now w' = now w + int (sum_list (map fst (it # pre))) + int (sum_list ds) + int lat"
    using tm it ds by simp
  ultimately show ?case using run st step by auto
qed

lemma is_Fetch_simps [simp]: "is_Fetch (Fetch q x)" "\<not> is_Fetch (Sleep ms)"
  by (simp_all add: is_Fetch_def)

lemma polls_fetches: "length (filter is_Fetch (polls c j p pre)) = length pre"
  by (induction pre) simp_all

lemma polls_sleeps: "filter (\<lambda>a. \<not> is_Fetch a) (polls c j p pre) = replicate (length pre) (Sleep p)"
  by (induction pre) simp_all

lemma waitLoop_times_out:
  assumes "net w = pre @ rest"
    and "\<forall>it\<in>set pre. in_progress (normalise (snd it))"
    and "naps w = ds @ later" "length ds = length pre"
    and "t \<le> now w - s + int (sum_list (map fst pre)) + int (sum_list ds)"
  shows "\<exists>w'. waitLoop c j s t p w = (Inr (timeout_result j t), w') \<and> t \<le> now w' - s"
  using assms
proof (induction pre arbitrary: w ds)
  case Nil
  then have "\<not> now w - s < t" by simp
  then show ?case by (simp add: waitLoop_expired)
next
  case (Cons it pre)
  show ?case
  proof (cases "now w - s < t")
    case False
    then show ?thesis by (simp add: waitLoop_expired)
  next
    case live: True
    obtain l0 o0 where it: "it = (l0, o0)" by (cases it)
    from Cons.prems(4) obtain d ds' where ds: "ds = d # ds'" and len: "length ds' = length pre"
      by (cases ds) simp_all
    let ?w2 = "slept p d (fetched c j l0 o0 w)"
    have nw: "net w = (l0, o0) # (pre @ rest)"
      using Cons.prems(1) it by simp
    have busy: "in_progress (normalise o0)"
      using Cons.prems(2) it by simp
    have nap: "naps w = d # (ds' @ later)"
      using Cons.prems(3) ds by simp
    have step: "waitLoop c j s t p w = waitLoop c j s t p ?w2"
      using live nw busy nap by (rule waitLoop_continue)
    have "\<exists>w'. waitLoop c j s t p ?w2 = (Inr (timeout_result j t), w') \<and> t \<le> now w' - s"
    proof (rule Cons.IH)
      show "net ?w2 = pre @ rest" using nw by simp
      show "\<forall>it\<in>set pre. in_progress (normalise (snd it))" using Cons.prems(2) by simp
      show "naps ?w2 = ds' @ later" using nap by simp
      show "length ds' = length pre" by (rule len)
      show "t \<le> now ?w2 - s + int (sum_list (map fst pre)) + int (sum_list ds')"
        using Cons.prems(5) it ds by simp
    qed
    with step show ?thesis by simp
  qed
qed

lemma demo_run_failed:
  "waitForJob demo_client ''j1'' None None (demo_world [(5, demo_ok pending), (7, demo_ok failed)] [2000])
   = (Inr (normalise (demo_ok failed)),
      \<lparr> now = 3012, net = [], naps = [],
        log = [(1000, Fetch (getJob_request demo_client ''j1'') (normalise (demo_ok pending))),
               (1005, Sleep 2000),
               (3005, Fetch (getJob_request demo_client ''j1'') (normalise (demo_ok failed)))] \<rparr>)"
  by (simp add: waitForJob_def waitLoop.simps getJob_def get_def request_def sleep_def Let_def
      demo_world_def demo_ok_def demo_job_def response_ok_def getJob_request_def)

section \<open>Terminal jobs are results, not errors\<close>

text \<open>
  Claim C1. In every run of \<^verbatim>\<open>waitForJob\<close>, whatever the world does: if one of the
  fetches the run logs succeeded and carried a job whose status is terminal (completed,
  failed or cancelled), then the run returns, and what it returns is the result of that
  fetch: \<open>success\<close> true, that job as data, no error. A failed or cancelled job is never
  turned into an error of the wait.
\<close>

theorem terminal_job_is_returned:
  assumes "log (snd (waitForJob c jobId ta pa w)) = log w @ L"
    and "(tm, Fetch q x) \<in> set L"
    and "success x" "data x = Some job" "terminal (status job)"
  shows "fst (waitForJob c jobId ta pa w) = Inr x \<and> success x \<and> data x = Some job \<and> err x = None"
proof -
  have ok: "trace_ok c jobId (now w) (case ta of None \<Rightarrow> 120000 | Some t \<Rightarrow> t)
              (fst (waitForJob c jobId ta pa w)) L"
    using assms(1) by (rule waitForJob_trace)
  have busy: "\<not> in_progress x"
    using assms(4,5) by (simp add: in_progress_def)
  have present: "\<not> missing_data x"
    using assms(4) by (simp add: missing_data_def)
  from ok assms(2) have "envelope_but_data x"
    and "in_progress x \<or> decided_by (fst (waitForJob c jobId ta pa w)) x"
    unfolding trace_ok_def by blast+
  with busy present have "fst (waitForJob c jobId ta pa w) = Inr x" "envelope_but_data x"
    by (simp_all add: decided_by_def)
  with assms(3,4) show ?thesis by (simp add: envelope_but_data_def)
qed

theorem terminal_job_is_returned_witness:
  "log (snd (waitForJob demo_client ''j1'' None None
              (demo_world [(5, demo_ok pending), (7, demo_ok failed)] [2000])))
   = log (demo_world [(5, demo_ok pending), (7, demo_ok failed)] [2000])
     @ [(1000, Fetch (getJob_request demo_client ''j1'') (normalise (demo_ok pending))),
        (1005, Sleep 2000),
        (3005, Fetch (getJob_request demo_client ''j1'') (normalise (demo_ok failed)))]
   \<and> success (normalise (demo_ok failed))
   \<and> data (normalise (demo_ok failed)) = Some (demo_job failed)
   \<and> terminal (status (demo_job failed))
   \<and> fst (waitForJob demo_client ''j1'' None None
              (demo_world [(5, demo_ok pending), (7, demo_ok failed)] [2000]))
      = Inr \<lparr> success = True, data = Some (demo_job failed), err = None \<rparr>"
proof -
  let ?w = "demo_world [(5, demo_ok pending), (7, demo_ok failed)] [2000] :: KreaJob World"
  let ?L = "[(1000, Fetch (getJob_request demo_client ''j1'') (normalise (demo_ok pending))),
             (1005, Sleep 2000),
             (3005, Fetch (getJob_request demo_client ''j1'') (normalise (demo_ok failed)))]"
  have h1: "log (snd (waitForJob demo_client ''j1'' None None ?w)) = log ?w @ ?L"
    by (simp add: demo_run_failed) (simp add: demo_world_def)
  have h2: "(3005, Fetch (getJob_request demo_client ''j1'') (normalise (demo_ok failed))) \<in> set ?L"
    by simp
  have h3: "success (normalise (demo_ok failed))"
    and h4: "data (normalise (demo_ok failed)) = Some (demo_job failed)"
    by (simp_all add: demo_ok_def response_ok_def)
  have h5: "terminal (status (demo_job failed))"
    by (simp add: terminal_def demo_job_def)
  have n: "normalise (demo_ok failed) = \<lparr> success = True, data = Some (demo_job failed), err = None \<rparr>"
    by (simp add: demo_ok_def response_ok_def)
  from terminal_job_is_returned [OF h1 h2 h3 h4 h5] h1 h3 h4 h5 n show ?thesis
    by simp
qed

section \<open>The deadline\<close>

text \<open>
  Claim C2. Take a run in which the fetches observe only in-progress jobs (the
  observations \<open>pre\<close>, each followed by a wait) until the time they and the waits take
  reaches \<open>timeoutMs\<close>. Then \<^verbatim>\<open>waitForJob\<close> returns the failure with code TIMEOUT and
  message \<^verbatim>\<open>Job <jobId> did not complete within <timeoutMs>ms\<close>, at a clock reading at
  least \<open>timeoutMs\<close> after the start, and every fetch it made started strictly before the
  deadline. The test comes before each fetch: a loop that finds the budget spent returns
  the TIMEOUT result and leaves the world untouched.
\<close>

theorem waitForJob_times_out:
  assumes "net w = pre @ rest"
    and "\<forall>it\<in>set pre. in_progress (normalise (snd it))"
    and "naps w = ds @ later" "length ds = length pre"
    and "timeoutMs \<le> int (sum_list (map fst pre)) + int (sum_list ds)"
  shows "(\<exists>w' L. waitForJob c jobId (Some timeoutMs) pa w = (Inr (timeout_result jobId timeoutMs), w')
            \<and> timeoutMs \<le> now w' - now w
            \<and> log w' = log w @ L
            \<and> (\<forall>tm q x. (tm, Fetch q x) \<in> set L \<longrightarrow> tm - now w < timeoutMs))
       \<and> timeout_result jobId timeoutMs
           = \<lparr> success = False, data = None,
               err = Some \<lparr> code = ''TIMEOUT'',
                            message = ''Job '' @ jobId @ '' did not complete within ''
                                      @ show_int timeoutMs @ ''ms'',
                            details = None \<rparr> \<rparr>
       \<and> (timeoutMs \<le> now w0 - s \<longrightarrow>
            waitLoop c jobId s timeoutMs p w0 = (Inr (timeout_result jobId timeoutMs), w0))"
proof -
  let ?p = "case pa of None \<Rightarrow> 2000 | Some p \<Rightarrow> p"
  have "timeoutMs \<le> now w - now w + int (sum_list (map fst pre)) + int (sum_list ds)"
    using assms(5) by simp
  with assms(1-4) obtain w' where
    run: "waitLoop c jobId (now w) timeoutMs ?p w = (Inr (timeout_result jobId timeoutMs), w')"
    and late: "timeoutMs \<le> now w' - now w"
    using waitLoop_times_out [of w pre rest ds later timeoutMs "now w" c jobId ?p] by blast
  have wf: "waitForJob c jobId (Some timeoutMs) pa w = (Inr (timeout_result jobId timeoutMs), w')"
    using run by (simp add: waitForJob_def)
  obtain L where lg: "log (snd (waitLoop c jobId (now w) timeoutMs ?p w)) = log w @ L"
    and ok: "trace_ok c jobId (now w) timeoutMs (fst (waitLoop c jobId (now w) timeoutMs ?p w)) L"
    using waitLoop_trace [of c jobId "now w" timeoutMs ?p w] by blast
  have "log w' = log w @ L" using lg run by simp
  moreover have "\<forall>tm q x. (tm, Fetch q x) \<in> set L \<longrightarrow> tm - now w < timeoutMs"
    using ok by (auto simp: trace_ok_def)
  ultimately have first: "\<exists>w' L. waitForJob c jobId (Some timeoutMs) pa w = (Inr (timeout_result jobId timeoutMs), w')
            \<and> timeoutMs \<le> now w' - now w
            \<and> log w' = log w @ L
            \<and> (\<forall>tm q x. (tm, Fetch q x) \<in> set L \<longrightarrow> tm - now w < timeoutMs)"
    using wf late by blast
  have third: "timeoutMs \<le> now w0 - s \<longrightarrow>
            waitLoop c jobId s timeoutMs p w0 = (Inr (timeout_result jobId timeoutMs), w0)"
    by (simp add: waitLoop_expired)
  from first third show ?thesis
    by (simp add: timeout_result_def)
qed

theorem waitForJob_times_out_witness:
  "in_progress (normalise (demo_ok processing))
   \<and> (5000::int) \<le> int (sum_list (map fst [(5::nat, demo_ok processing), (6, demo_ok processing),
                                             (7, demo_ok processing)]))
                     + int (sum_list [2000, 2000, 2000])
   \<and> fst (waitForJob demo_client ''j1'' (Some 5000) (Some 2000)
            (demo_world [(5, demo_ok processing), (6, demo_ok processing), (7, demo_ok processing),
                         (8, demo_ok completed)]
                        [2000, 2000, 2000, 2000]))
      = Inr \<lparr> success = False, data = None,
              err = Some \<lparr> code = ''TIMEOUT'',
                           message = ''Job j1 did not complete within 5000ms'', details = None \<rparr> \<rparr>
   \<and> map fst (log (snd (waitForJob demo_client ''j1'' (Some 5000) (Some 2000)
            (demo_world [(5, demo_ok processing), (6, demo_ok processing), (7, demo_ok processing),
                         (8, demo_ok completed)]
                        [2000, 2000, 2000, 2000]))))
      = [1000, 1005, 3005, 3011, 5011, 5018]"
proof -
  let ?pre = "[(5, demo_ok processing), (6, demo_ok processing), (7, demo_ok processing)]
                 :: (nat \<times> KreaJob FetchOutcome) list"
  let ?w = "demo_world [(5, demo_ok processing), (6, demo_ok processing), (7, demo_ok processing),
                        (8, demo_ok completed)] [2000, 2000, 2000, 2000] :: KreaJob World"
  have h1: "net ?w = ?pre @ [(8, demo_ok completed)]"
    by (simp add: demo_world_def)
  have b: "in_progress (normalise (demo_ok processing))"
    by (simp add: in_progress_def demo_ok_def demo_job_def terminal_def response_ok_def)
  have h2: "\<forall>it\<in>set ?pre. in_progress (normalise (snd it))"
    using b by simp
  have h3: "naps ?w = [2000, 2000, 2000] @ [2000]"
    by (simp add: demo_world_def)
  have h4: "length [2000::nat, 2000, 2000] = length ?pre"
    by simp
  have h5: "(5000::int) \<le> int (sum_list (map fst ?pre)) + int (sum_list [2000, 2000, 2000])"
    by simp
  note T = waitForJob_times_out [OF h1 h2 h3 h4 h5, of demo_client "''j1''" "Some 2000" ?w 0 0]
  from T obtain w' where "waitForJob demo_client ''j1'' (Some 5000) (Some 2000) ?w
      = (Inr (timeout_result ''j1'' 5000), w')"
    by blast
  then have res: "fst (waitForJob demo_client ''j1'' (Some 5000) (Some 2000) ?w)
      = Inr (timeout_result ''j1'' 5000)"
    by simp
  have sh: "show_int 5000 = ''5000''"
    by (simp add: show_int_def show_nat.simps digit_char_def)
  have tr: "timeout_result ''j1'' 5000 = \<lparr> success = False, data = None,
              err = Some \<lparr> code = ''TIMEOUT'',
                           message = ''Job j1 did not complete within 5000ms'', details = None \<rparr> \<rparr>"
    by (simp add: timeout_result_def sh)
  have lg: "map fst (log (snd (waitForJob demo_client ''j1'' (Some 5000) (Some 2000) ?w)))
      = [1000, 1005, 3005, 3011, 5011, 5018]"
    by (simp add: waitForJob_def waitLoop.simps getJob_def get_def request_def sleep_def Let_def
      demo_world_def demo_ok_def demo_job_def response_ok_def)
  show ?thesis
    unfolding res tr lg using b h5 by blast
qed

section \<open>A failed fetch ends the wait\<close>

text \<open>
  Claim C3. In every run of \<^verbatim>\<open>waitForJob\<close>, whatever the world does: if one of the
  fetches the run logs returned \<open>success = False\<close>, then the run returns exactly that
  result, and that fetch is the last entry of the log: no fetch and no wait follows it.
\<close>

theorem fetch_failure_is_returned:
  assumes "log (snd (waitForJob c jobId ta pa w)) = log w @ L"
    and "(tm, Fetch q x) \<in> set L"
    and "\<not> success x"
  shows "fst (waitForJob c jobId ta pa w) = Inr x \<and> (\<exists>L0. L = L0 @ [(tm, Fetch q x)])"
proof -
  have ok: "trace_ok c jobId (now w) (case ta of None \<Rightarrow> 120000 | Some t \<Rightarrow> t)
              (fst (waitForJob c jobId ta pa w)) L"
    using assms(1) by (rule waitForJob_trace)
  have busy: "\<not> in_progress x"
    using assms(3) by (simp add: in_progress_def)
  have present: "\<not> missing_data x"
    using assms(3) by (simp add: missing_data_def)
  from ok assms(2) have "in_progress x \<or> decided_by (fst (waitForJob c jobId ta pa w)) x"
    and "in_progress x \<or> (\<exists>L0. L = L0 @ [(tm, Fetch q x)])"
    unfolding trace_ok_def by blast+
  with busy present show ?thesis
    by (simp add: decided_by_def)
qed

theorem fetch_failure_is_returned_witness:
  "log (snd (waitForJob demo_client ''j1'' None None
              (demo_world [(5, demo_ok processing), (7, Responded 503 (Parsed (demo_job pending) None)),
                           (9, demo_ok completed)] [2000, 2000])))
   = log (demo_world [(5, demo_ok processing), (7, Responded 503 (Parsed (demo_job pending) None)),
                      (9, demo_ok completed)] [2000, 2000])
     @ [(1000, Fetch (getJob_request demo_client ''j1'') (normalise (demo_ok processing))),
        (1005, Sleep 2000),
        (3005, Fetch (getJob_request demo_client ''j1'')
                 (normalise (Responded 503 (Parsed (demo_job pending) None))))]
   \<and> \<not> success (normalise (Responded 503 (Parsed (demo_job pending) None)))
   \<and> fst (waitForJob demo_client ''j1'' None None
              (demo_world [(5, demo_ok processing), (7, Responded 503 (Parsed (demo_job pending) None)),
                           (9, demo_ok completed)] [2000, 2000]))
      = Inr \<lparr> success = False, data = None,
              err = Some \<lparr> code = ''HTTP_503'', message = ''Request failed with status 503'',
                           details = Some (demo_job pending) \<rparr> \<rparr>"
proof -
  let ?bad = "Responded 503 (Parsed (demo_job pending) None) :: KreaJob FetchOutcome"
  let ?w = "demo_world [(5, demo_ok processing), (7, ?bad), (9, demo_ok completed)] [2000, 2000] :: KreaJob World"
  let ?L = "[(1000, Fetch (getJob_request demo_client ''j1'') (normalise (demo_ok processing))),
             (1005, Sleep 2000),
             (3005, Fetch (getJob_request demo_client ''j1'') (normalise ?bad))]"
  have h1: "log (snd (waitForJob demo_client ''j1'' None None ?w)) = log ?w @ ?L"
    by (simp add: waitForJob_def waitLoop.simps getJob_def get_def request_def sleep_def Let_def
      demo_world_def demo_ok_def demo_job_def response_ok_def getJob_request_def)
  have h2: "(3005, Fetch (getJob_request demo_client ''j1'') (normalise ?bad)) \<in> set ?L"
    by simp
  have h3: "\<not> success (normalise ?bad)"
    by (simp add: response_ok_def)
  have n: "normalise ?bad = \<lparr> success = False, data = None,
              err = Some \<lparr> code = ''HTTP_503'', message = ''Request failed with status 503'',
                           details = Some (demo_job pending) \<rparr> \<rparr>"
    by (simp add: response_ok_def show_nat.simps digit_char_def)
  from fetch_failure_is_returned [OF h1 h2 h3] h1 h3 n show ?thesis
    by simp
qed

section \<open>One fetch per observation, at a fixed interval\<close>

text \<open>
  Claim C4. Let the remote show the in-progress observations \<open>pre\<close> and then a terminal
  job, the fetch of which starts before the deadline. Then \<^verbatim>\<open>waitForJob\<close> returns the
  result of that last fetch, and its log is exactly: for each observation of \<open>pre\<close> one
  fetch and one wait of \<open>pollIntervalMs\<close>, then the fetch of the terminal job. So there
  are \<open>length pre + 1\<close> fetches, every wait asks for the same interval, and nothing is
  fetched or awaited after the terminal observation (the rest of both scripts is unused).
\<close>

theorem waitForJob_polls_until_terminal:
  assumes "net w = pre @ (lat, out) # rest"
    and "\<forall>it\<in>set pre. in_progress (normalise (snd it))"
    and "success (normalise out)" "data (normalise out) = Some job" "terminal (status job)"
    and "naps w = ds @ later" "length ds = length pre"
    and "int (sum_list (map fst pre)) + int (sum_list ds) < timeoutMs"
  shows "\<exists>w' L. waitForJob c jobId (Some timeoutMs) (Some pollIntervalMs) w = (Inr (normalise out), w')
           \<and> log w' = log w @ L
           \<and> map snd L = polls c jobId pollIntervalMs pre @ [Fetch (getJob_request c jobId) (normalise out)]
           \<and> length (filter is_Fetch (map snd L)) = length pre + 1
           \<and> filter (\<lambda>a. \<not> is_Fetch a) (map snd L) = replicate (length pre) (Sleep pollIntervalMs)
           \<and> net w' = rest \<and> naps w' = later"
proof -
  have stop: "\<not> in_progress (normalise out)"
    using assms(4,5) by (simp add: in_progress_def)
  have present: "\<not> missing_data (normalise out)"
    using assms(4) by (simp add: missing_data_def)
  have "now w - now w + int (sum_list (map fst pre)) + int (sum_list ds) < timeoutMs"
    using assms(8) by simp
  with assms(1,2) stop present assms(6,7)
  obtain w' L where run: "waitLoop c jobId (now w) timeoutMs pollIntervalMs w = (Inr (normalise out), w')"
    and st: "net w' = rest" "naps w' = later"
    and lg: "log w' = log w @ L"
    and sh: "map snd L = polls c jobId pollIntervalMs pre @ [Fetch (getJob_request c jobId) (normalise out)]"
    using waitLoop_polls [of w pre lat out rest ds later "now w" timeoutMs c jobId pollIntervalMs]
    by blast
  have "length (filter is_Fetch (map snd L)) = length pre + 1"
    unfolding sh by (simp add: polls_fetches)
  moreover have "filter (\<lambda>a. \<not> is_Fetch a) (map snd L) = replicate (length pre) (Sleep pollIntervalMs)"
    unfolding sh by (simp add: polls_sleeps)
  moreover have "waitForJob c jobId (Some timeoutMs) (Some pollIntervalMs) w = (Inr (normalise out), w')"
    using run by (simp add: waitForJob_def)
  ultimately show ?thesis using st lg sh by blast
qed

theorem waitForJob_polls_until_terminal_witness:
  "in_progress (normalise (demo_ok processing))
   \<and> terminal (status (demo_job completed))
   \<and> int (sum_list (map fst [(5::nat, demo_ok processing), (6, demo_ok processing)]))
       + int (sum_list [2000, 2001]) < 120000
   \<and> (\<exists>w' L. waitForJob demo_client ''j1'' (Some 120000) (Some 2000)
                  (demo_world [(5, demo_ok processing), (6, demo_ok processing), (7, demo_ok completed),
                               (8, demo_ok completed)] [2000, 2001, 2002])
                = (Inr \<lparr> success = True, data = Some (demo_job completed), err = None \<rparr>, w')
         \<and> log w' = L
         \<and> map snd L = [Fetch (getJob_request demo_client ''j1'') (normalise (demo_ok processing)), Sleep 2000,
                         Fetch (getJob_request demo_client ''j1'') (normalise (demo_ok processing)), Sleep 2000,
                         Fetch (getJob_request demo_client ''j1'')
                           \<lparr> success = True, data = Some (demo_job completed), err = None \<rparr>]
         \<and> net w' = [(8, demo_ok completed)] \<and> naps w' = [2002])"
proof -
  let ?pre = "[(5, demo_ok processing), (6, demo_ok processing)] :: (nat \<times> KreaJob FetchOutcome) list"
  let ?w = "demo_world [(5, demo_ok processing), (6, demo_ok processing), (7, demo_ok completed),
                        (8, demo_ok completed)] [2000, 2001, 2002] :: KreaJob World"
  have h1: "net ?w = ?pre @ (7, demo_ok completed) # [(8, demo_ok completed)]"
    by (simp add: demo_world_def)
  have b: "in_progress (normalise (demo_ok processing))"
    by (simp add: in_progress_def demo_ok_def demo_job_def terminal_def response_ok_def)
  have h2: "\<forall>it\<in>set ?pre. in_progress (normalise (snd it))"
    using b by simp
  have h3: "success (normalise (demo_ok completed))"
    and h4: "data (normalise (demo_ok completed)) = Some (demo_job completed)"
    by (simp_all add: demo_ok_def response_ok_def)
  have h5: "terminal (status (demo_job completed))"
    by (simp add: terminal_def demo_job_def)
  have h6: "naps ?w = [2000, 2001] @ [2002]"
    by (simp add: demo_world_def)
  have h7: "length [2000::nat, 2001] = length ?pre"
    by simp
  have h8: "int (sum_list (map fst ?pre)) + int (sum_list [2000, 2001]) < 120000"
    by simp
  have n: "normalise (demo_ok completed) = \<lparr> success = True, data = Some (demo_job completed), err = None \<rparr>"
    by (simp add: demo_ok_def response_ok_def)
  have l: "log ?w = []"
    by (simp add: demo_world_def)
  have p: "polls demo_client ''j1'' 2000 ?pre
      = [Fetch (getJob_request demo_client ''j1'') (normalise (demo_ok processing)), Sleep 2000,
         Fetch (getJob_request demo_client ''j1'') (normalise (demo_ok processing)), Sleep 2000]"
    by simp
  from waitForJob_polls_until_terminal [OF h1 h2 h3 h4 h5 h6 h7 h8, of demo_client "''j1''" 2000]
  obtain w' L where "waitForJob demo_client ''j1'' (Some 120000) (Some 2000) ?w = (Inr (normalise (demo_ok completed)), w')"
    and "log w' = log ?w @ L"
    and "map snd L = polls demo_client ''j1'' 2000 ?pre @ [Fetch (getJob_request demo_client ''j1'') (normalise (demo_ok completed))]"
    and "net w' = [(8, demo_ok completed)]" "naps w' = [2002]"
    by blast
  then have "\<exists>w' L. waitForJob demo_client ''j1'' (Some 120000) (Some 2000) ?w
                = (Inr \<lparr> success = True, data = Some (demo_job completed), err = None \<rparr>, w')
         \<and> log w' = L
         \<and> map snd L = [Fetch (getJob_request demo_client ''j1'') (normalise (demo_ok processing)), Sleep 2000,
                         Fetch (getJob_request demo_client ''j1'') (normalise (demo_ok processing)), Sleep 2000,
                         Fetch (getJob_request demo_client ''j1'')
                           \<lparr> success = True, data = Some (demo_job completed), err = None \<rparr>]
         \<and> net w' = [(8, demo_ok completed)] \<and> naps w' = [2002]"
    unfolding n l p by simp
  with b h5 h8 show ?thesis by blast
qed

section \<open>Filters of the job listing\<close>

text \<open>
  Claim C5, as the source has it. \<^verbatim>\<open>listJobs\<close> sends one GET to \<^verbatim>\<open>/v1/jobs\<close> whose
  query holds, in this order, the limit and the offset when given (unmodified, in
  decimal), the status unless it is missing or equal to "all", and the type whenever it
  is given, whatever its value. So a status "all" is omitted, but a type "all" is sent as
  the literal string: the first theorem shows that request, the second states the query
  for every input.
\<close>

theorem listJobs_type_all_counterexample:
  "sent_queries (snd (listJobs demo_client
       \<lparr> limit = Some 20, offset = Some 0, status_filter = Some ''all'', type_filter = Some ''all'' \<rparr>
       (demo_world [(5, Responded 200 (Parsed () None))] [])))
   = [[(''limit'', ''20''), (''offset'', ''0''), (''type'', ''all'')]]"
  by (simp add: listJobs_def get_def request_def Let_def demo_world_def sent_queries_def
      build_request_def listJobs_params_def show_int_def show_nat.simps digit_char_def)

text \<open>
  Claim C5, amended. For every input, \<^verbatim>\<open>listJobs\<close> sends one GET whose query is: the
  limit and the offset when given, unmodified; the status when it is given and is not
  "all" (a status "all" is omitted, never sent); the type whenever it is given, unmodified
  whatever its value, "all" included.
\<close>

theorem listJobs_query:
  assumes "net w = (lat, out) # rest"
  shows "listJobs c p w
           = (Inr (normalise out),
              w\<lparr> now := now w + int lat, net := rest,
                 log := log w @ [(now w, Fetch (listJobs_request c p) (normalise out))] \<rparr>)
       \<and> http_query (listJobs_request c p)
           = (case limit p of None \<Rightarrow> [] | Some n \<Rightarrow> [(''limit'', show_int n)])
           @ (case offset p of None \<Rightarrow> [] | Some n \<Rightarrow> [(''offset'', show_int n)])
           @ (case status_filter p of None \<Rightarrow> []
              | Some s \<Rightarrow> if s = ''all'' then [] else [(''status'', s)])
           @ (case type_filter p of None \<Rightarrow> [] | Some ty \<Rightarrow> [(''type'', ty)])"
  using assms
  by (simp add: listJobs_def get_def request_Cons listJobs_request_def build_request_def
      listJobs_params_def split: option.splits)

theorem listJobs_query_witness:
  "http_query (listJobs_request demo_client
       \<lparr> limit = Some 20, offset = None, status_filter = Some ''all'', type_filter = Some ''video'' \<rparr>)
   = [(''limit'', ''20''), (''type'', ''video'')]
   \<and> http_query (listJobs_request demo_client
       \<lparr> limit = None, offset = Some 0, status_filter = Some ''failed'', type_filter = None \<rparr>)
   = [(''offset'', ''0''), (''status'', ''failed'')]"
  using listJobs_query [of "demo_world [(5, Responded 200 (Parsed () None))] []" 5
      "Responded 200 (Parsed () None)" "[]" demo_client
      "\<lparr> limit = Some 20, offset = None, status_filter = Some ''all'', type_filter = Some ''video'' \<rparr>"]
    listJobs_query [of "demo_world [(5, Responded 200 (Parsed () None))] []" 5
      "Responded 200 (Parsed () None)" "[]" demo_client
      "\<lparr> limit = None, offset = Some 0, status_filter = Some ''failed'', type_filter = None \<rparr>"]
  by (simp add: demo_world_def show_int_def show_nat.simps digit_char_def)

section \<open>Wait budgets of the generation calls\<close>

text \<open>
  Claim C6. When the submission succeeds and completion is awaited, \<^verbatim>\<open>generateImage\<close>
  waits with a total timeout of 120000 ms and \<^verbatim>\<open>generateVideo\<close> with 300000 ms, both
  polling every 2000 ms: the image path takes both defaults of \<^verbatim>\<open>waitForJob\<close>, the
  video path passes its timeout and takes the default interval. The wait starts in the
  world the submission left, and \<^verbatim>\<open>waitForJob\<close> runs the loop with the given or
  defaulted values from the clock reading at its call.
\<close>

theorem generation_wait_budgets:
  assumes "net w = (lat, Responded st (Parsed job m)) # rest" "response_ok st"
  shows "generateImage c ep ps True w
           = waitForJob c (id' job) (Some 120000) (Some 2000)
               (snd (post c (''/v1/image/'' @ ep) (Some (with_webhook ps (webhookUrl c))) w))
       \<and> generateVideo c ep ps True w
           = waitForJob c (id' job) (Some 300000) (Some 2000)
               (snd (post c (''/v1/video/'' @ ep) (Some (with_webhook ps (webhookUrl c))) w))
       \<and> waitForJob c j ta pa wj
           = waitLoop c j (now wj) (case ta of None \<Rightarrow> 120000 | Some t \<Rightarrow> t)
               (case pa of None \<Rightarrow> 2000 | Some p \<Rightarrow> p) wj"
  using assms
  by (simp add: generateImage_def generateVideo_def post_def request_Cons waitForJob_def Let_def)

theorem generation_wait_budgets_witness:
  "response_ok 200
   \<and> generateImage demo_client ''flux'' [(''prompt'', Some ''a cat'')] True
        (demo_world [(5, Responded 200 (Parsed (demo_job pending) None)),
                     (7, Responded 200 (Parsed (demo_job completed) None))] [2000])
      = waitForJob demo_client ''j1'' (Some 120000) (Some 2000)
          (snd (post demo_client ''/v1/image/flux''
                  (Some (with_webhook [(''prompt'', Some ''a cat'')] (webhookUrl demo_client)))
                  (demo_world [(5, Responded 200 (Parsed (demo_job pending) None)),
                               (7, Responded 200 (Parsed (demo_job completed) None))] [2000])))"
  using generation_wait_budgets [of
      "demo_world [(5, Responded 200 (Parsed (demo_job pending) None)),
                   (7, Responded 200 (Parsed (demo_job completed) None))] [2000]"
      5 200 "demo_job pending" None "[(7, Responded 200 (Parsed (demo_job completed) None))]"
      demo_client "''flux''" "[(''prompt'', Some ''a cat'')]"]
  by (simp add: demo_world_def demo_job_def response_ok_def)

section \<open>The result envelope\<close>




section \<open>Deleting a job that the remote does not find\<close>




section \<open>A budget that is already spent\<close>

text \<open>
  Claim C9. Called with \<open>timeoutMs \<le> 0\<close>, \<^verbatim>\<open>waitForJob\<close> returns the TIMEOUT error
  and leaves the world exactly as it found it, whatever the job identifier and the poll
  interval (given or defaulted): nothing is fetched, nothing is logged and no timer is
  awaited, because the loop condition is false at the first test.
\<close>

theorem waitForJob_nonpositive_timeout:
  assumes "timeoutMs \<le> 0"
  shows "waitForJob c jobId (Some timeoutMs) pollArg w = (Inr (timeout_result jobId timeoutMs), w)
       \<and> success (timeout_result jobId timeoutMs) = False
       \<and> map_option code (err (timeout_result jobId timeoutMs)) = Some ''TIMEOUT''"
  using assms by (simp add: waitForJob_def waitLoop_expired timeout_result_def)

theorem waitForJob_nonpositive_timeout_witness:
  "(0::int) \<le> 0 \<and>
   waitForJob demo_client ''j1'' (Some 0) (Some 2000)
     (demo_world [(5, Responded 200 (Parsed (demo_job completed) None))] [])
   = (Inr (timeout_result ''j1'' 0), demo_world [(5, Responded 200 (Parsed (demo_job completed) None))] [])"
  using waitForJob_nonpositive_timeout [of 0 demo_client "''j1''" "Some 2000"
      "demo_world [(5, Responded 200 (Parsed (demo_job completed) None))] []"]
  by simp

section \<open>Unconfirmed deletions\<close>

text \<open>
  Claim C10. When \<open>confirm\<close> is false, the handlers of \<^verbatim>\<open>krea_delete_job\<close> and
  \<^verbatim>\<open>krea_delete_asset\<close> answer with the error response "Deletion not confirmed"
  (\<open>isError\<close> set) and return the world unchanged: no request is sent. False is what the
  schemas give \<open>confirm\<close> when the caller omits it.
\<close>

theorem deletion_not_confirmed:
  assumes "\<not> confirm params" "\<not> confirm_asset aparams"
  shows "krea_delete_job client params w
           = (Inr (formatErrorResponse ''Deletion not confirmed'' (Some ''Set confirm=true to delete'')), w)
       \<and> krea_delete_asset client aparams w
           = (Inr (formatErrorResponse ''Deletion not confirmed'' (Some ''Set confirm=true to delete'')), w)
       \<and> isError (formatErrorResponse ''Deletion not confirmed'' (Some ''Set confirm=true to delete''))
           = Some True
       \<and> map_option confirm (DeleteJobSchema (job_id params) None)
           = (if job_id params = [] then None else Some False)
       \<and> map_option confirm_asset (DeleteAssetSchema (asset_id aparams) None)
           = (if asset_id aparams = [] then None else Some False)"
  using assms
  by (simp add: krea_delete_job_def krea_delete_asset_def formatErrorResponse_def
      DeleteJobSchema_def DeleteAssetSchema_def)

theorem deletion_not_confirmed_witness:
  "\<not> confirm \<lparr> job_id = ''j1'', confirm = False \<rparr>
   \<and> \<not> confirm_asset \<lparr> asset_id = ''a1'', confirm_asset = False \<rparr>
   \<and> krea_delete_job demo_client \<lparr> job_id = ''j1'', confirm = False \<rparr>
        (demo_world [(5, Responded 200 (Parsed True None))] [])
      = (Inr (formatErrorResponse ''Deletion not confirmed'' (Some ''Set confirm=true to delete'')),
         demo_world [(5, Responded 200 (Parsed True None))] [])
   \<and> net (snd (krea_delete_asset demo_client \<lparr> asset_id = ''a1'', confirm_asset = False \<rparr>
        (demo_world [(5, Responded 200 (Parsed True None))] [])))
      = [(5, Responded 200 (Parsed True None))]"
  using deletion_not_confirmed [of "\<lparr> job_id = ''j1'', confirm = False \<rparr>"
      "\<lparr> asset_id = ''a1'', confirm_asset = False \<rparr>" demo_client
      "demo_world [(5, Responded 200 (Parsed True None))] []"]
  by (simp add: demo_world_def)

end
